theory Spec2Isabelle
  imports Complex_Main "HOL-Library.AList" "HOL-Library.Sublist"
begin

section \<open>Python strings\<close>

text \<open>
  A Python \<open>str\<close> is modelled as a \<open>string\<close>; a \<open>char\<close> is read as the code point of
  the same number, so the model covers the code points below 256. On these,
  \<open>str.lower\<close> moves \<open>A-Z\<close> and the upper-case letters \<open>U+00C0-U+00DE\<close> (without the
  multiplication sign \<open>U+00D7\<close>) up by 32, and \<open>str.isspace\<close>, which \<open>str.strip()\<close> and the
  regular expression class \<open>\s\<close> use, holds of the twelve code points listed in
  \<open>is_space\<close>. The substring test \<open>x in s\<close> is \<^const>\<open>sublist\<close>.
\<close>

definition is_upper :: "char \<Rightarrow> bool" where
  "is_upper c =
     (let n = (of_char c :: nat)
      in (65 \<le> n \<and> n \<le> 90) \<or> (192 \<le> n \<and> n \<le> 214) \<or> (216 \<le> n \<and> n \<le> 222))"

definition lower_char :: "char \<Rightarrow> char" where
  "lower_char c = (if is_upper c then char_of (of_char c + (32 :: nat)) else c)"

definition lower :: "string \<Rightarrow> string" where
  "lower s = map lower_char s"

definition is_space :: "char \<Rightarrow> bool" where
  "is_space c = ((of_char c :: nat) \<in> {9, 10, 11, 12, 13, 28, 29, 30, 31, 32, 133, 160})"

definition newline :: char where
  "newline = CHR 0x0A"

text \<open>\<open>s.strip()\<close> and \<open>s.strip("-")\<close>: drop the characters from both ends.\<close>

definition strip_with :: "(char \<Rightarrow> bool) \<Rightarrow> string \<Rightarrow> string" where
  "strip_with p s = rev (dropWhile p (rev (dropWhile p s)))"

definition strip :: "string \<Rightarrow> string" where
  "strip s = strip_with is_space s"

definition strip_chars :: "char \<Rightarrow> string \<Rightarrow> string" where
  "strip_chars c s = strip_with (\<lambda>x. x = c) s"

text \<open>\<open>s.split(sep)\<close> for a separator of one character: empty pieces are kept.\<close>

fun split_on :: "char \<Rightarrow> string \<Rightarrow> string list" where
  "split_on sep [] = [[]]"
| "split_on sep (x # xs) =
     (if x = sep then [] # split_on sep xs
      else (case split_on sep xs of
              [] \<Rightarrow> [[x]]
            | w # ws \<Rightarrow> (x # w) # ws))"

text \<open>\<open>sep.join(parts)\<close>.\<close>

fun join :: "string \<Rightarrow> string list \<Rightarrow> string" where
  "join sep [] = []"
| "join sep [x] = x"
| "join sep (x # y # ys) = x @ sep @ join sep (y # ys)"

text \<open>\<open>str(n)\<close> for a non-negative integer: its decimal digits.\<close>

fun str_nat :: "nat \<Rightarrow> string" where
  "str_nat n =
     (if n < 10 then [char_of (48 + n)]
      else str_nat (n div 10) @ [char_of (48 + n mod 10)])"

declare str_nat.simps [simp del]

subsection \<open>The three regular-expression substitutions\<close>

text \<open>
  \<open>re.sub(r"[^a-z0-9\-]+", "-", s)\<close>: every maximal run of characters outside the class
  becomes one hyphen.
\<close>

definition slug_char :: "char \<Rightarrow> bool" where
  "slug_char c = (c \<in> set ''abcdefghijklmnopqrstuvwxyz0123456789-'')"

function sub_non_slug :: "string \<Rightarrow> string" where
  "sub_non_slug [] = []"
| "sub_non_slug (c # cs) =
     (if slug_char c then c # sub_non_slug cs
      else CHR ''-'' # sub_non_slug (dropWhile (\<lambda>x. \<not> slug_char x) cs))"
  by pat_completeness auto
termination
  by (relation "measure length") (auto simp: less_Suc_eq_le length_dropWhile_le)

text \<open>
  \<open>re.sub(r"\s+\n", "\n", text)\<close>: at a whitespace character the greedy \<open>\s+\<close> takes the
  whole whitespace run and backs off to the last newline in it that is not its first
  character; the match, if there is one, becomes a single newline.
\<close>

function sub_space_newline :: "string \<Rightarrow> string" where
  "sub_space_newline [] = []"
| "sub_space_newline (c # cs) =
     (if is_space c \<and> newline \<in> set (takeWhile is_space cs)
      then newline # sub_space_newline
             (drop (length (takeWhile is_space cs)
                    - length (takeWhile (\<lambda>x. x \<noteq> newline) (rev (takeWhile is_space cs)))) cs)
      else c # sub_space_newline cs)"
  by pat_completeness auto
termination
  by (relation "measure length") auto

text \<open>\<open>re.sub(r"\n{3,}", "\n\n", text)\<close>: a run of three or more newlines becomes two.\<close>

function sub_newlines :: "string \<Rightarrow> string" where
  "sub_newlines [] = []"
| "sub_newlines (c # cs) =
     (if c = newline \<and> 2 \<le> length (takeWhile (\<lambda>x. x = newline) cs)
      then newline # newline # sub_newlines (dropWhile (\<lambda>x. x = newline) cs)
      else c # sub_newlines cs)"
  by pat_completeness auto
termination
  by (relation "measure length") (auto simp: less_Suc_eq_le length_dropWhile_le)

definition clean_html_text :: "string \<Rightarrow> string" where
  "clean_html_text text = strip (sub_newlines (sub_space_newline text))"

section \<open>Python values\<close>

text \<open>
  What \<open>json.loads\<close> returns. A \<open>dict\<close> is an association list in insertion order with
  distinct keys; Python's \<open>None\<close> is \<open>JNull\<close>, so \<open>d.get(k)\<close> of a missing key is \<open>JNull\<close>.
  Numbers are rationals (NaN and the infinities, which are truthy, are left out).
\<close>

datatype json =
    JNull
  | JBool bool
  | JNum rat
  | JStr string
  | JList "json list"
  | JDict "(string \<times> json) list"

type_synonym dict = "(string \<times> json) list"

fun truthy :: "json \<Rightarrow> bool" where
  "truthy JNull = False"
| "truthy (JBool b) = b"
| "truthy (JNum n) = (n \<noteq> 0)"
| "truthy (JStr s) = (s \<noteq> [])"
| "truthy (JList xs) = (xs \<noteq> [])"
| "truthy (JDict d) = (d \<noteq> [])"

definition py_or :: "json \<Rightarrow> json \<Rightarrow> json" where
  "py_or a b = (if truthy a then a else b)"

definition dict_get :: "dict \<Rightarrow> string \<Rightarrow> json" where
  "dict_get d k = (case map_of d k of None \<Rightarrow> JNull | Some v \<Rightarrow> v)"

text \<open>\<open>data.update(b)\<close>: the items of \<open>b\<close> in order; a key already there keeps its place.\<close>

definition dict_update :: "dict \<Rightarrow> dict \<Rightarrow> dict" where
  "dict_update data b = fold (\<lambda>(k, v). AList.update k v) b data"

text \<open>
  The two library functions whose results depend on text the model does not parse:
  \<open>json.loads\<close> (\<open>None\<close> when it raises) and \<open>str()\<close> of a value that is not a string, as
  the f-string of the description formats it.
\<close>

record pylib =
  json_loads :: "string \<Rightarrow> json option"
  py_str :: "json \<Rightarrow> string"

definition py_format :: "pylib \<Rightarrow> json \<Rightarrow> string" where
  "py_format lib v = (case v of JStr s \<Rightarrow> s | _ \<Rightarrow> py_str lib v)"

section \<open>Configuration\<close>

definition DEFAULT_VENDOR :: string where
  "DEFAULT_VENDOR = ''Philodo''"

definition DEFAULT_PRODUCT_TYPE :: string where
  "DEFAULT_PRODUCT_TYPE = ''Sporting Goods > Outdoor Recreation > Cycling > Electric Bicycles''"

definition DEFAULT_TAGS :: "string list" where
  "DEFAULT_TAGS = [''e-bike'', ''dual motor'', ''fat tire'', ''60V'']"

definition OUTPUT_CSV :: string where
  "OUTPUT_CSV = ''shopify_products.csv''"

definition MAX_RETRIES :: nat where
  "MAX_RETRIES = 3"

definition RETRY_SLEEP :: rat where
  "RETRY_SLEEP = 3 / 2"

section \<open>The data model\<close>

text \<open>
  \<open>price\<close> and \<open>sku\<close> are declared \<open>Optional[str]\<close>, but \<open>parse_product\<close> stores in them
  whatever value the JSON-LD block holds, so they are \<open>json\<close> values here.
\<close>

record ProductData =
  handle :: string
  title :: string
  body_html :: string
  vendor :: string
  product_type :: string
  tags :: "string list"
  images :: "string list"
  price :: json
  compare_at_price :: "string option"
  sku :: json
  grams :: "string option"
  weight_unit :: string
  requires_shipping :: bool
  taxable :: bool
  published :: bool
  option1_name :: string
  option1_value :: string

section \<open>The fetched page\<close>

text \<open>
  The page is what the BeautifulSoup queries of the program return on it: each field is
  the result of one query.
\<close>

record script_tag =
  tag_string :: "string option"
  tag_text :: string

record img_tag =
  src :: "string option"
  data_src :: "string option"
  data_original :: "string option"
  srcset :: "string option"

record heading =
  heading_html :: string
  next_siblings :: "(string \<times> string) list"

record meta_tag =
  content :: "string option"

record soup =
  title_string :: "string option"
  h1_text :: "string option"
  ld_json_scripts :: "script_tag list"
  desc_container :: "string option"
  spec_headings :: "heading list"
  price_meta_property :: "meta_tag option"
  price_meta_name :: "meta_tag option"
  img_tags :: "img_tag list"

text \<open>
  \<open>title_string\<close>: \<open>soup.title.string\<close>, \<open>None\<close> without a title tag;
  \<open>h1_text\<close>: \<open>get_text(strip=True)\<close> of the first \<open>h1\<close>;
  \<open>ld_json_scripts\<close>: the \<open>application/ld+json\<close> script tags in document order;
  \<open>desc_container\<close>: \<open>str\<close> of the first element whose class matches the description
  pattern; \<open>spec_headings\<close>: the \<open>h2\<close>-\<open>h4\<close> headings that match \<open>spec|feature\<close>, each
  with \<open>str\<close> of itself and the name and \<open>str\<close> of every following sibling element;
  the two \<open>meta\<close> tags of the price; all \<open>img\<close> tags in document order.
\<close>

section \<open>Parsers\<close>

subsection \<open>\<open>extract_json_ld\<close>\<close>

text \<open>\<open>tag.string or tag.text\<close>.\<close>

definition tag_content :: "script_tag \<Rightarrow> string" where
  "tag_content tag =
     (case tag_string tag of
        None \<Rightarrow> tag_text tag
      | Some s \<Rightarrow> if s \<noteq> [] then s else tag_text tag)"

text \<open>The body of the inner loop: \<open>if isinstance(b, dict): data.update(b)\<close>.\<close>

definition merge_block :: "dict \<Rightarrow> json \<Rightarrow> dict" where
  "merge_block data b = (case b of JDict d \<Rightarrow> dict_update data d | _ \<Rightarrow> data)"

text \<open>
  The body of the outer loop: an empty content and a content that \<open>json.loads\<close> rejects
  both \<open>continue\<close>; a list is taken as the list of its elements, anything else as a
  list of one block.
\<close>

definition ld_step :: "(string \<Rightarrow> json option) \<Rightarrow> dict \<Rightarrow> script_tag \<Rightarrow> dict" where
  "ld_step loads data tag =
     (let c = tag_content tag
      in if c = [] then data
         else (case loads c of
                 None \<Rightarrow> data
               | Some block \<Rightarrow>
                   (let blocks = (case block of JList bs \<Rightarrow> bs | _ \<Rightarrow> [block])
                    in foldl merge_block data blocks)))"

definition extract_json_ld :: "(string \<Rightarrow> json option) \<Rightarrow> script_tag list \<Rightarrow> dict" where
  "extract_json_ld loads scripts = foldl (ld_step loads) [] scripts"

subsection \<open>\<open>extract_images\<close>\<close>

text \<open>\<open>a or b\<close> on two attribute values: \<open>None\<close> and the empty string are falsy.\<close>

definition attr_or :: "string option \<Rightarrow> string option \<Rightarrow> string option" where
  "attr_or a b = (case a of None \<Rightarrow> b | Some s \<Rightarrow> if s \<noteq> [] then a else b)"

definition chosen_src :: "img_tag \<Rightarrow> string option" where
  "chosen_src img = attr_or (attr_or (src img) (data_src img)) (data_original img)"

definition SKIP_WORDS :: "string list" where
  "SKIP_WORDS = [''logo'', ''icon'', ''spinner'', ''placeholder'', ''svg'']"

definition irrelevant :: "string \<Rightarrow> bool" where
  "irrelevant s = list_ex (\<lambda>x. sublist x (lower s)) SKIP_WORDS"

definition srcset_candidates :: "string \<Rightarrow> string list" where
  "srcset_candidates ss =
     map (\<lambda>s. hd (split_on CHR '' '' s))
       (filter (\<lambda>s. strip s \<noteq> []) (split_on CHR '','' ss))"

text \<open>
  One pass of the first loop: \<open>None\<close> when the element is skipped by a \<open>continue\<close>,
  otherwise the URL that is appended to \<open>urls\<close>.
\<close>

definition img_url :: "img_tag \<Rightarrow> string option" where
  "img_url img =
     (case chosen_src img of
        None \<Rightarrow> None
      | Some s \<Rightarrow>
          if s = [] then None
          else if irrelevant s then None
          else (case srcset img of
                  None \<Rightarrow> Some s
                | Some ss \<Rightarrow>
                    if ss = [] then Some s
                    else if srcset_candidates ss \<noteq> [] then Some (last (srcset_candidates ss))
                    else Some s))"

fun collect_urls :: "img_tag list \<Rightarrow> string list" where
  "collect_urls [] = []"
| "collect_urls (img # imgs) =
     (case img_url img of
        None \<Rightarrow> collect_urls imgs
      | Some u \<Rightarrow> u # collect_urls imgs)"

text \<open>The second loop, with its two variables \<open>seen\<close> and \<open>deduped\<close>.\<close>

fun dedupe :: "string list \<Rightarrow> string set \<Rightarrow> string list \<Rightarrow> string list" where
  "dedupe [] seen deduped = deduped"
| "dedupe (u # us) seen deduped =
     (if u \<notin> seen then dedupe us (insert u seen) (deduped @ [u])
      else dedupe us seen deduped)"

definition extract_images :: "img_tag list \<Rightarrow> string list" where
  "extract_images imgs = take 12 (dedupe (collect_urls imgs) {} [])"

subsection \<open>\<open>extract_specs_block\<close>\<close>

text \<open>The loop over the following siblings; \<open>parts\<close> is returned at either \<open>break\<close>.\<close>

definition stops_section :: "string \<Rightarrow> bool" where
  "stops_section name = (name \<in> set [''h2'', ''h3'', ''h4''])"

definition kept_in_section :: "string \<Rightarrow> bool" where
  "kept_in_section name = (name \<in> set [''p'', ''ul'', ''ol'', ''table'', ''div''])"

fun gather_siblings :: "(string \<times> string) list \<Rightarrow> string list \<Rightarrow> string list" where
  "gather_siblings [] parts = parts"
| "gather_siblings ((name, html) # sibs) parts =
     (if stops_section name then parts
      else (let parts' = (if kept_in_section name then parts @ [html] else parts)
            in if length (concat parts') > 12000 then parts'
               else gather_siblings sibs parts'))"

definition extract_specs_block :: "soup \<Rightarrow> string option" where
  "extract_specs_block sp =
     (case spec_headings sp of
        [] \<Rightarrow> None
      | start # _ \<Rightarrow>
          (let html = join [newline] (gather_siblings (next_siblings start) [heading_html start])
           in if html \<noteq> [] \<and> length html > 50 then Some html else None))"

subsection \<open>\<open>parse_product\<close>, step by step\<close>

datatype error = AttributeError

text \<open>Step 1, the title.\<close>

definition parse_title :: "soup \<Rightarrow> string" where
  "parse_title sp =
     (let t0 = (case title_string sp of
                  None \<Rightarrow> None
                | Some s \<Rightarrow> if s \<noteq> [] then Some (strip s) else None);
          t1 = (case h1_text sp of
                  None \<Rightarrow> t0
                | Some h \<Rightarrow> if length h > 2 then Some h else t0)
      in (case t1 of
            None \<Rightarrow> ''Philodo Electric Bike''
          | Some t \<Rightarrow> if t \<noteq> [] then t else ''Philodo Electric Bike''))"

text \<open>Steps 3 and 4, the description and the specifications section.\<close>

definition parse_description :: "pylib \<Rightarrow> soup \<Rightarrow> dict \<Rightarrow> string" where
  "parse_description lib sp json_ld =
     (let desc = py_or (dict_get json_ld ''description'') (dict_get json_ld ''Description'');
          d0 = (if \<not> truthy desc
                then (case desc_container sp of None \<Rightarrow> [] | Some html \<Rightarrow> html)
                else ''<p>'' @ py_format lib desc @ ''</p>'');
          d1 = (case extract_specs_block sp of
                  None \<Rightarrow> d0
                | Some specs_html \<Rightarrow>
                    if specs_html \<noteq> [] \<and> \<not> sublist specs_html d0
                    then d0 @ [newline] @ ''<h3>Specifications</h3>'' @ [newline] @ specs_html
                    else d0);
          d2 = clean_html_text d1
      in if d2 \<noteq> [] then d2 else ''<p>High-performance dual-motor e-bike.</p>'')"

text \<open>
  Step 5, the price. \<open>offers[0].get("price")\<close> raises \<open>AttributeError\<close> when the first
  element of the list has no method \<open>get\<close>, that is, when it is not a dict.
\<close>

definition offers_price :: "json \<Rightarrow> error + json" where
  "offers_price offers =
     (case offers of
        JDict d \<Rightarrow> Inr (dict_get d ''price'')
      | JList os \<Rightarrow>
          (case os of
             [] \<Rightarrow> Inr JNull
           | first # _ \<Rightarrow>
               (case first of
                  JDict d \<Rightarrow> Inr (dict_get d ''price'')
                | _ \<Rightarrow> Inl AttributeError))
      | _ \<Rightarrow> Inr JNull)"

definition meta_price :: "soup \<Rightarrow> json \<Rightarrow> json" where
  "meta_price sp pr =
     (let price_meta = (case price_meta_property sp of
                          None \<Rightarrow> price_meta_name sp
                        | Some m \<Rightarrow> Some m)
      in (case price_meta of
            None \<Rightarrow> pr
          | Some m \<Rightarrow>
              (case content m of
                 None \<Rightarrow> pr
               | Some c \<Rightarrow> if c \<noteq> [] then JStr c else pr)))"

definition parse_price :: "soup \<Rightarrow> dict \<Rightarrow> error + json" where
  "parse_price sp json_ld =
     (case offers_price (dict_get json_ld ''offers'') of
        Inl e \<Rightarrow> Inl e
      | Inr pr \<Rightarrow> Inr (if \<not> truthy pr then meta_price sp pr else pr))"

text \<open>Step 6, the SKU.\<close>

definition parse_sku :: "dict \<Rightarrow> json" where
  "parse_sku json_ld =
     (let s = dict_get json_ld ''sku''
      in if \<not> truthy s
         then (case dict_get json_ld ''offers'' of
                 JDict d \<Rightarrow> dict_get d ''sku''
               | _ \<Rightarrow> s)
         else s)"

text \<open>Step 8, the handle.\<close>

definition make_handle :: "string \<Rightarrow> string" where
  "make_handle t =
     (let h = strip_chars CHR ''-'' (sub_non_slug (lower t))
      in if \<not> sublist ''philodo'' h then ''philodo-'' @ h else h)"

section \<open>The world: network, clock, console and files\<close>

text \<open>
  A cell of a CSV row is a Python value: a string, or the value of \<open>price\<close> or \<open>sku\<close>.
  A file is the list of the rows written to it.
\<close>

type_synonym row = "json list"

record response =
  status_code :: int
  page :: soup

datatype http_result = Response response | RequestException

text \<open>
  The network gives the outcome of the \<open>n\<close>-th request of the run (counting from 0), for
  the URL it asks.
\<close>

type_synonym net = "string \<Rightarrow> nat \<Rightarrow> http_result"

datatype message =
    WarnStatus string int nat
  | WarnRequestError string nat
  | ErrorFailedGet string
  | InfoNoUrls
  | Usage
  | InfoScraping string
  | OkParsed string nat
  | FailParse string
  | ErrorNoProducts
  | DoneWrote nat

datatype event = Request string | Sleep rat | Print message

record world =
  requests_made :: nat
  trace :: "event list"
  files :: "string \<Rightarrow> row list option"

definition emit :: "event \<Rightarrow> world \<Rightarrow> world" where
  "emit e w = w\<lparr>trace := trace w @ [e]\<rparr>"

definition request :: "string \<Rightarrow> world \<Rightarrow> world" where
  "request url w = emit (Request url) (w\<lparr>requests_made := Suc (requests_made w)\<rparr>)"

subsection \<open>\<open>get\<close>\<close>

text \<open>
  The \<open>for\<close> loop over the attempt numbers; after a failed attempt, whichever it is, the
  warning is printed and \<open>time.sleep(RETRY_SLEEP * attempt)\<close> runs. The empty list is the
  end of the loop.
\<close>

fun get_attempts :: "net \<Rightarrow> string \<Rightarrow> nat list \<Rightarrow> world \<Rightarrow> response option \<times> world" where
  "get_attempts nw url [] w = (None, emit (Print (ErrorFailedGet url)) w)"
| "get_attempts nw url (attempt # rest) w =
     (case nw url (requests_made w) of
        Response resp \<Rightarrow>
          if status_code resp = 200 then (Some resp, request url w)
          else get_attempts nw url rest
                 (emit (Sleep (RETRY_SLEEP * of_nat attempt))
                    (emit (Print (WarnStatus url (status_code resp) attempt)) (request url w)))
      | RequestException \<Rightarrow>
          get_attempts nw url rest
            (emit (Sleep (RETRY_SLEEP * of_nat attempt))
               (emit (Print (WarnRequestError url attempt)) (request url w))))"

definition get :: "net \<Rightarrow> string \<Rightarrow> world \<Rightarrow> response option \<times> world" where
  "get nw url w = get_attempts nw url [1 ..< MAX_RETRIES + 1] w"

subsection \<open>\<open>parse_product\<close>\<close>

text \<open>
  \<open>build_product\<close> is the body of \<open>parse_product\<close> from the parsed page on: the steps
  in the order of the source, the exception of step 5 passed on, and the record.
  \<open>parse_product\<close> fetches the page first and returns \<open>None\<close> without a response; the
  response of \<open>get\<close> has status 200 and so is truthy.
\<close>

definition build_product :: "pylib \<Rightarrow> soup \<Rightarrow> error + ProductData" where
  "build_product lib sp =
     (let t = parse_title sp;
          json_ld = extract_json_ld (json_loads lib) (ld_json_scripts sp);
          description_html = parse_description lib sp json_ld
      in (case parse_price sp json_ld of
            Inl e \<Rightarrow> Inl e
          | Inr pr \<Rightarrow>
              Inr \<lparr>handle = make_handle t,
                   title = t,
                   body_html = description_html,
                   vendor = DEFAULT_VENDOR,
                   product_type = DEFAULT_PRODUCT_TYPE,
                   tags = DEFAULT_TAGS,
                   images = extract_images (img_tags sp),
                   price = pr,
                   compare_at_price = None,
                   sku = parse_sku json_ld,
                   grams = None,
                   weight_unit = ''lb'',
                   requires_shipping = True,
                   taxable = True,
                   published = True,
                   option1_name = ''Title'',
                   option1_value = ''Default Title''\<rparr>))"

definition parse_product ::
  "pylib \<Rightarrow> net \<Rightarrow> string \<Rightarrow> world \<Rightarrow> (error + ProductData option) \<times> world" where
  "parse_product lib nw url w =
     (case get nw url w of
        (None, w') \<Rightarrow> (Inr None, w')
      | (Some resp, w') \<Rightarrow>
          (case build_product lib (page resp) of
             Inl e \<Rightarrow> (Inl e, w')
           | Inr p \<Rightarrow> (Inr (Some p), w')))"

section \<open>The CSV writer\<close>

definition CSV_HEADERS :: "string list" where
  "CSV_HEADERS =
     [''Handle'', ''Title'', ''Body (HTML)'', ''Vendor'', ''Standard Product Type'', ''Tags'',
      ''Published'', ''Option1 Name'', ''Option1 Value'', ''Variant SKU'', ''Variant Grams'',
      ''Variant Inventory Tracker'', ''Variant Inventory Policy'',
      ''Variant Fulfillment Service'', ''Variant Price'', ''Variant Compare At Price'',
      ''Variant Requires Shipping'', ''Variant Taxable'', ''Variant Weight Unit'',
      ''Image Src'', ''Image Position'', ''Image Alt Text'', ''SEO Title'',
      ''SEO Description'', ''Google Product Category'']"

text \<open>\<open>"TRUE" if b else "FALSE"\<close>, and \<open>x or ""\<close> on the two kinds of optional field.\<close>

definition bool_cell :: "bool \<Rightarrow> json" where
  "bool_cell b = JStr (if b then ''TRUE'' else ''FALSE'')"

definition opt_cell :: "string option \<Rightarrow> json" where
  "opt_cell x = (case x of None \<Rightarrow> JStr [] | Some s \<Rightarrow> JStr s)"

definition val_cell :: "json \<Rightarrow> json" where
  "val_cell v = (if truthy v then v else JStr [])"

text \<open>
  The dash of the SEO description is the code point \<open>U+2013\<close>, which a \<open>char\<close> cannot
  hold; it is written as the three bytes of its UTF-8 encoding.
\<close>

definition EN_DASH :: string where
  "EN_DASH = [CHR 0xE2, CHR 0x80, CHR 0x93]"

definition base_row :: "ProductData \<Rightarrow> row" where
  "base_row p =
     (let first_img = (case images p of [] \<Rightarrow> [] | i # _ \<Rightarrow> i)
      in [JStr (handle p),
          JStr (title p),
          JStr (body_html p),
          JStr (vendor p),
          JStr [],
          JStr (join '','' (tags p)),
          bool_cell (published p),
          JStr (option1_name p),
          JStr (option1_value p),
          val_cell (sku p),
          opt_cell (grams p),
          JStr ''shopify'',
          JStr ''deny'',
          JStr ''manual'',
          val_cell (price p),
          opt_cell (compare_at_price p),
          bool_cell (requires_shipping p),
          bool_cell (taxable p),
          JStr (weight_unit p),
          JStr first_img,
          JStr (if first_img \<noteq> [] then ''1'' else []),
          JStr (title p),
          JStr (''Buy '' @ title p @ '' by '' @ vendor p @ '' '' @ EN_DASH
                @ '' dual motor e-bike, fast shipping.''),
          JStr ''Sporting Goods > Outdoor Recreation > Cycling > Electric Bicycles''])"

text \<open>The loop over \<open>enumerate(p.images[1:], start=2)\<close>: \<open>idx\<close> is the next index.\<close>

fun image_rows :: "string \<Rightarrow> nat \<Rightarrow> string list \<Rightarrow> row list" where
  "image_rows h idx [] = []"
| "image_rows h idx (img # imgs) =
     [JStr h, JStr [], JStr [], JStr [], JStr [], JStr [], JStr [], JStr [], JStr [], JStr [],
      JStr [], JStr [], JStr [], JStr [], JStr [], JStr [], JStr [], JStr [], JStr [],
      JStr img, JStr (str_nat idx), JStr [], JStr [], JStr [], JStr []]
     # image_rows h (Suc idx) imgs"

definition product_to_rows :: "ProductData \<Rightarrow> row list" where
  "product_to_rows p = base_row p # image_rows (handle p) 2 (drop 1 (images p))"

section \<open>\<open>main\<close>\<close>

text \<open>The loop over the URLs. An exception of \<open>parse_product\<close> is not caught here.\<close>

fun scrape_all ::
  "pylib \<Rightarrow> net \<Rightarrow> string list \<Rightarrow> ProductData list \<Rightarrow> world
     \<Rightarrow> (error + ProductData list) \<times> world" where
  "scrape_all lib nw [] products w = (Inr products, w)"
| "scrape_all lib nw (url # urls) products w =
     (case parse_product lib nw url (emit (Print (InfoScraping url)) w) of
        (Inl e, w') \<Rightarrow> (Inl e, w')
      | (Inr None, w') \<Rightarrow>
          scrape_all lib nw urls products (emit (Print (FailParse url)) w')
      | (Inr (Some p), w') \<Rightarrow>
          scrape_all lib nw urls (products @ [p])
            (emit (Print (OkParsed (title p) (length (images p)))) w'))"

text \<open>\<open>open(OUTPUT_CSV, "w")\<close> and the rows written through the CSV writer.\<close>

definition write_csv :: "ProductData list \<Rightarrow> world \<Rightarrow> world" where
  "write_csv products w =
     w\<lparr>files := (files w)(OUTPUT_CSV \<mapsto>
          map JStr CSV_HEADERS # concat (map product_to_rows products))\<rparr>"

text \<open>The result is the exception that leaves \<open>main\<close>, if any, and the world it leaves.\<close>

definition main :: "pylib \<Rightarrow> net \<Rightarrow> string list \<Rightarrow> world \<Rightarrow> error option \<times> world" where
  "main lib nw urls w =
     (if urls = [] then (None, emit (Print Usage) (emit (Print InfoNoUrls) w))
      else (case scrape_all lib nw urls [] w of
              (Inl e, w') \<Rightarrow> (Some e, w')
            | (Inr products, w') \<Rightarrow>
                if products = [] then (None, emit (Print ErrorNoProducts) w')
                else (None, emit (Print (DoneWrote (length products)))
                              (write_csv products w'))))"

section \<open>Notions of the specification\<close>

text \<open>
  The definitions of this section are not code of the program: they say what the
  specification speaks of, and the theorems compare the program with them.
\<close>

text \<open>The position of the first occurrence of \<open>x\<close> in \<open>xs\<close>.\<close>

definition first_index :: "'a list \<Rightarrow> 'a \<Rightarrow> nat" where
  "first_index xs x = length (takeWhile (\<lambda>y. y \<noteq> x) xs)"

text \<open>
  An \<open>img\<close> element whose URL from \<open>src\<close>, \<open>data-src\<close> or \<open>data-original\<close> contains one
  of the five words, in any letter case.
\<close>

definition src_irrelevant :: "img_tag \<Rightarrow> bool" where
  "src_irrelevant img = (case chosen_src img of None \<Rightarrow> False | Some s \<Rightarrow> irrelevant s)"

text \<open>
  The dict-shaped blocks of one parsed script, a list flattened one level, and those of
  all scripts in document order; a script without content or with content that does not
  parse has none.
\<close>

definition dict_blocks :: "json \<Rightarrow> dict list" where
  "dict_blocks block =
     (case block of
        JDict d \<Rightarrow> [d]
      | JList bs \<Rightarrow> List.map_filter (\<lambda>b. case b of JDict d \<Rightarrow> Some d | _ \<Rightarrow> None) bs
      | _ \<Rightarrow> [])"

definition ld_blocks :: "(string \<Rightarrow> json option) \<Rightarrow> script_tag list \<Rightarrow> dict list" where
  "ld_blocks loads scripts =
     concat (map (\<lambda>tag. if tag_content tag = [] then []
                         else (case loads (tag_content tag) of
                                 None \<Rightarrow> []
                               | Some block \<Rightarrow> dict_blocks block)) scripts)"

text \<open>Last wins: the value of \<open>k\<close> in the last block that has the key \<open>k\<close>.\<close>

definition last_wins :: "dict list \<Rightarrow> string \<Rightarrow> json option" where
  "last_wins ds k =
     (case find (\<lambda>d. map_of d k \<noteq> None) (rev ds) of
        None \<Rightarrow> None
      | Some d \<Rightarrow> map_of d k)"

text \<open>
  The durations slept in a trace; the events between two worlds; a request that yields
  status 200, and its response; the first of the \<open>MAX_RETRIES\<close> requests from request
  number \<open>n0\<close> on that yields status 200.
\<close>

fun sleeps :: "event list \<Rightarrow> rat list" where
  "sleeps [] = []"
| "sleeps (Sleep d # es) = d # sleeps es"
| "sleeps (e # es) = sleeps es"

definition new_events :: "world \<Rightarrow> world \<Rightarrow> event list" where
  "new_events w w' = drop (length (trace w)) (trace w')"

definition succeeds :: "http_result \<Rightarrow> bool" where
  "succeeds r = (case r of Response resp \<Rightarrow> status_code resp = 200 | RequestException \<Rightarrow> False)"

definition fetched :: "http_result \<Rightarrow> response option" where
  "fetched r = (case r of Response resp \<Rightarrow> Some resp | RequestException \<Rightarrow> None)"

definition first_success :: "net \<Rightarrow> string \<Rightarrow> nat \<Rightarrow> nat option" where
  "first_success nw url n0 = find (\<lambda>k. succeeds (nw url (n0 + k))) [0 ..< MAX_RETRIES]"

section \<open>Example inputs\<close>

definition example_product :: ProductData where
  "example_product =
     \<lparr>handle = ''philodo-falcon'', title = ''Falcon'', body_html = ''<p>Fast.</p>'',
      vendor = ''Philodo'', product_type = DEFAULT_PRODUCT_TYPE, tags = DEFAULT_TAGS,
      images = [''a.jpg'', ''b.jpg'', ''c.jpg''], price = JStr ''1999'',
      compare_at_price = Some ''2499'', sku = JStr ''F-60'', grams = Some ''30000'',
      weight_unit = ''lb'', requires_shipping = True, taxable = True, published = True,
      option1_name = ''Title'', option1_value = ''Default Title''\<rparr>"

definition srcset_spaced_img :: img_tag where
  "srcset_spaced_img =
     \<lparr>src = Some ''a.jpg'', data_src = None, data_original = None,
      srcset = Some ''a.jpg 1x, b.jpg 2x''\<rparr>"

definition srcset_logo_img :: img_tag where
  "srcset_logo_img =
     \<lparr>src = Some ''a.jpg'', data_src = None, data_original = None,
      srcset = Some ''LOGO.png 2x''\<rparr>"

definition plain_img :: "string \<Rightarrow> img_tag" where
  "plain_img u = \<lparr>src = Some u, data_src = None, data_original = None, srcset = None\<rparr>"

definition example_loads :: "string \<Rightarrow> json option" where
  "example_loads s =
     (if s = ''A'' then Some (JDict [(''name'', JStr ''old''), (''sku'', JStr ''F-60'')])
      else if s = ''B'' then Some (JList [JStr ''x'', JDict [(''name'', JStr ''new'')]])
      else None)"

definition example_scripts :: "script_tag list" where
  "example_scripts =
     [\<lparr>tag_string = Some ''A'', tag_text = ''A''\<rparr>,
      \<lparr>tag_string = None, tag_text = ''not json''\<rparr>,
      \<lparr>tag_string = Some ''B'', tag_text = ''B''\<rparr>]"

definition empty_soup :: soup where
  "empty_soup =
     \<lparr>title_string = None, h1_text = None, ld_json_scripts = [], desc_container = None,
      spec_headings = [], price_meta_property = None, price_meta_name = None, img_tags = []\<rparr>"

definition failing_net :: net where
  "failing_net url n = Response \<lparr>status_code = 503, page = empty_soup\<rparr>"

definition world0 :: world where
  "world0 = \<lparr>requests_made = 0, trace = [], files = Map.empty\<rparr>"

definition flaky_net :: net where
  "flaky_net url n =
     (if n = 0 then RequestException else Response \<lparr>status_code = 200, page = empty_soup\<rparr>)"

definition offers_list_text :: string where
  \<open>offers_list_text = ''{"offers": ["sold-out"]}''\<close>

definition example_lib :: pylib where
  "example_lib =
     \<lparr>json_loads = (\<lambda>s. if s = offers_list_text
                          then Some (JDict [(''offers'', JList [JStr ''sold-out''])])
                          else None),
      py_str = (\<lambda>v. ''?'')\<rparr>"

definition offers_list_soup :: soup where
  "offers_list_soup =
     empty_soup\<lparr>ld_json_scripts := [\<lparr>tag_string = Some offers_list_text, tag_text = offers_list_text\<rparr>]\<rparr>"

definition offers_list_net :: net where
  "offers_list_net url n = Response \<lparr>status_code = 200, page = offers_list_soup\<rparr>"

definition falcon_ld_text :: string where
  \<open>falcon_ld_text = ''{"@type": "Product", "description": "Dual motor.", "sku": "F-60", "offers": {"price": "1999"}}''\<close>

definition falcon_lib :: pylib where
  "falcon_lib =
     \<lparr>json_loads = (\<lambda>s. if s = falcon_ld_text
                          then Some (JDict [(''@type'', JStr ''Product''),
                                            (''description'', JStr ''Dual motor.''),
                                            (''sku'', JStr ''F-60''),
                                            (''offers'', JDict [(''price'', JStr ''1999'')])])
                          else None),
      py_str = (\<lambda>v. ''?'')\<rparr>"

definition falcon_soup :: soup where
  "falcon_soup =
     \<lparr>title_string = Some ''Falcon 60V | Philodo'',
      h1_text = Some ''Falcon 60V'',
      ld_json_scripts = [\<lparr>tag_string = Some falcon_ld_text, tag_text = falcon_ld_text\<rparr>],
      desc_container = None,
      spec_headings = [],
      price_meta_property = None,
      price_meta_name = None,
      img_tags = [plain_img ''https://cdn.example/falcon.jpg'', plain_img ''/img/logo.png'']\<rparr>"

definition falcon_net :: net where
  "falcon_net url n = Response \<lparr>status_code = 200, page = falcon_soup\<rparr>"

definition falcon_product :: ProductData where
  "falcon_product =
     \<lparr>handle = ''philodo-falcon-60v'', title = ''Falcon 60V'',
      body_html = ''<p>Dual motor.</p>'', vendor = ''Philodo'',
      product_type = DEFAULT_PRODUCT_TYPE, tags = DEFAULT_TAGS,
      images = [''https://cdn.example/falcon.jpg''], price = JStr ''1999'',
      compare_at_price = None, sku = JStr ''F-60'', grams = None,
      weight_unit = ''lb'', requires_shipping = True, taxable = True, published = True,
      option1_name = ''Title'', option1_value = ''Default Title''\<rparr>"



section \<open>The row mapper\<close>

lemma length_image_rows: "length (image_rows h idx imgs) = length imgs"
  by (induction imgs arbitrary: idx) simp_all

lemma nth_image_rows:
  "k < length imgs \<Longrightarrow>
     image_rows h idx imgs ! k =
       JStr h # replicate 18 (JStr []) @ [JStr (imgs ! k), JStr (str_nat (idx + k))]
         @ replicate 4 (JStr [])"
proof (induction imgs arbitrary: idx k)
  case Nil
  then show ?case by simp
next
  case (Cons i imgs)
  show ?case
  proof (cases k)
    case 0
    then show ?thesis by (simp add: numeral_eq_Suc)
  next
    case (Suc j)
    with Cons.prems have "j < length imgs" by simp
    from Cons.IH [OF this, of "Suc idx"] Suc show ?thesis by simp
  qed
qed

lemma length_base_row: "length (base_row p) = 24"
  by (simp add: base_row_def Let_def)

lemma str_nat_3: "str_nat (Suc (Suc (Suc 0))) = ''3''"
  by code_simp

text \<open>
  Claim C10. A product without images gives exactly one row, whose Image Src and Image
  Position cells (columns 20 and 21 of the header, indices 19 and 20) are empty strings.
  That row should have the 25 cells of the header; the base row built by
  \<open>product_to_rows\<close> has 24, for every product, while the header has 25: the title is
  written once, as Image Alt Text, and no cell is left for the last column.
\<close>

theorem base_row_short_without_images:
  "length (product_to_rows (p\<lparr>images := []\<rparr>)) = 1
   \<and> hd (product_to_rows (p\<lparr>images := []\<rparr>)) ! 19 = JStr []
   \<and> hd (product_to_rows (p\<lparr>images := []\<rparr>)) ! 20 = JStr []
   \<and> length (hd (product_to_rows (p\<lparr>images := []\<rparr>))) = 24
   \<and> length CSV_HEADERS = 25"
  by (simp add: product_to_rows_def base_row_def CSV_HEADERS_def)

text \<open>
  Claim C3, as stated, asks that the first row of a product with images has all 25
  columns populated. On the example product, which has three images and every optional
  field set, the cell of the column Standard Product Type is the empty string, and the
  row has 24 cells.
\<close>

theorem first_row_blank_product_type:
  "CSV_HEADERS ! 4 = ''Standard Product Type''
   \<and> hd (product_to_rows example_product) ! 4 = JStr []
   \<and> length (hd (product_to_rows example_product)) = 24"
  by (simp add: product_to_rows_def base_row_def CSV_HEADERS_def example_product_def)

text \<open>
  Claim C3, amended. A product with \<open>n \<ge> 1\<close> images gives exactly \<open>n\<close> rows. The first
  row carries, in the columns Handle to Image Alt Text (its first 22 cells): the handle,
  the title, the body, the vendor, a blank Standard Product Type, the tags joined by
  commas, \<open>TRUE\<close> or \<open>FALSE\<close> for published, the option name and value, the SKU and the
  grams (blank when absent), \<open>shopify\<close>, \<open>deny\<close>, \<open>manual\<close>, the price and the compare-at
  price (blank when absent), \<open>TRUE\<close> or \<open>FALSE\<close> for requires-shipping and taxable, the
  weight unit, the first image URL with position \<open>"1"\<close> (blank when that URL is the empty
  string), and the title as alt text. The row of the image with index \<open>i\<close>, for
  \<open>2 \<le> i \<le> n\<close> (list position \<open>k = i - 1\<close>), has 25 cells: the handle, 18 empty strings,
  the URL of that image, \<open>str(i)\<close>, and 4 empty strings.
\<close>

theorem product_to_rows_per_image:
  "images p \<noteq> [] \<Longrightarrow>
     length (product_to_rows p) = length (images p)
     \<and> take 22 (hd (product_to_rows p)) =
         [JStr (handle p),
          JStr (title p),
          JStr (body_html p),
          JStr (vendor p),
          JStr [],
          JStr (join '','' (tags p)),
          JStr (if published p then ''TRUE'' else ''FALSE''),
          JStr (option1_name p),
          JStr (option1_value p),
          (if truthy (sku p) then sku p else JStr []),
          (case grams p of None \<Rightarrow> JStr [] | Some s \<Rightarrow> JStr s),
          JStr ''shopify'',
          JStr ''deny'',
          JStr ''manual'',
          (if truthy (price p) then price p else JStr []),
          (case compare_at_price p of None \<Rightarrow> JStr [] | Some s \<Rightarrow> JStr s),
          JStr (if requires_shipping p then ''TRUE'' else ''FALSE''),
          JStr (if taxable p then ''TRUE'' else ''FALSE''),
          JStr (weight_unit p),
          JStr (hd (images p)),
          JStr (if hd (images p) \<noteq> [] then ''1'' else []),
          JStr (title p)]
     \<and> (\<forall>k. 1 \<le> k \<and> k < length (images p) \<longrightarrow>
           product_to_rows p ! k =
             JStr (handle p) # replicate 18 (JStr [])
               @ [JStr (images p ! k), JStr (str_nat (k + 1))] @ replicate 4 (JStr []))"
proof -
  assume ne: "images p \<noteq> []"
  then obtain i rest where im: "images p = i # rest"
    by (cases "images p") auto
  have len: "length (product_to_rows p) = length (images p)"
    by (simp add: product_to_rows_def length_image_rows im)
  have first: "hd (product_to_rows p) = base_row p"
    by (simp add: product_to_rows_def)
  have cells: "take 22 (base_row p) =
         [JStr (handle p),
          JStr (title p),
          JStr (body_html p),
          JStr (vendor p),
          JStr [],
          JStr (join '','' (tags p)),
          JStr (if published p then ''TRUE'' else ''FALSE''),
          JStr (option1_name p),
          JStr (option1_value p),
          (if truthy (sku p) then sku p else JStr []),
          (case grams p of None \<Rightarrow> JStr [] | Some s \<Rightarrow> JStr s),
          JStr ''shopify'',
          JStr ''deny'',
          JStr ''manual'',
          (if truthy (price p) then price p else JStr []),
          (case compare_at_price p of None \<Rightarrow> JStr [] | Some s \<Rightarrow> JStr s),
          JStr (if requires_shipping p then ''TRUE'' else ''FALSE''),
          JStr (if taxable p then ''TRUE'' else ''FALSE''),
          JStr (weight_unit p),
          JStr (hd (images p)),
          JStr (if hd (images p) \<noteq> [] then ''1'' else []),
          JStr (title p)]"
    by (simp add: base_row_def im bool_cell_def opt_cell_def val_cell_def)
  have rows: "product_to_rows p ! k =
             JStr (handle p) # replicate 18 (JStr [])
               @ [JStr (images p ! k), JStr (str_nat (k + 1))] @ replicate 4 (JStr [])"
    if "1 \<le> k" "k < length (images p)" for k
  proof -
    from that obtain j where k: "k = Suc j"
      by (cases k) auto
    with that im have j: "j < length rest"
      by simp
    have "product_to_rows p ! k = image_rows (handle p) 2 rest ! j"
      by (simp add: product_to_rows_def im k)
    with nth_image_rows [OF j, of "handle p" 2] show ?thesis
      by (simp add: im k)
  qed
  from len cells rows show ?thesis
    unfolding first by blast
qed

theorem product_to_rows_per_image_witness:
  "images example_product \<noteq> []
   \<and> length (product_to_rows example_product) = 3
   \<and> take 22 (hd (product_to_rows example_product)) =
       [JStr ''philodo-falcon'', JStr ''Falcon'', JStr ''<p>Fast.</p>'', JStr ''Philodo'',
        JStr [], JStr ''e-bike,dual motor,fat tire,60V'', JStr ''TRUE'', JStr ''Title'',
        JStr ''Default Title'', JStr ''F-60'', JStr ''30000'', JStr ''shopify'', JStr ''deny'',
        JStr ''manual'', JStr ''1999'', JStr ''2499'', JStr ''TRUE'', JStr ''TRUE'', JStr ''lb'',
        JStr ''a.jpg'', JStr ''1'', JStr ''Falcon'']
   \<and> product_to_rows example_product ! 2 =
       [JStr ''philodo-falcon'', JStr [], JStr [], JStr [], JStr [], JStr [], JStr [], JStr [],
        JStr [], JStr [], JStr [], JStr [], JStr [], JStr [], JStr [], JStr [], JStr [], JStr [],
        JStr [], JStr ''c.jpg'', JStr ''3'', JStr [], JStr [], JStr [], JStr []]"
proof -
  have ne: "images example_product \<noteq> []"
    by (simp add: example_product_def)
  note t = product_to_rows_per_image [OF ne]
  from t have "product_to_rows example_product ! 2 =
             JStr (handle example_product) # replicate 18 (JStr [])
               @ [JStr (images example_product ! 2), JStr (str_nat (2 + 1))]
               @ replicate 4 (JStr [])"
    by (simp add: example_product_def)
  then have r2: "product_to_rows example_product ! 2 =
       [JStr ''philodo-falcon'', JStr [], JStr [], JStr [], JStr [], JStr [], JStr [], JStr [],
        JStr [], JStr [], JStr [], JStr [], JStr [], JStr [], JStr [], JStr [], JStr [], JStr [],
        JStr [], JStr ''c.jpg'', JStr ''3'', JStr [], JStr [], JStr [], JStr []]"
    by (simp add: example_product_def str_nat_3 numeral_eq_Suc)
  from t have r1: "take 22 (hd (product_to_rows example_product)) =
       [JStr ''philodo-falcon'', JStr ''Falcon'', JStr ''<p>Fast.</p>'', JStr ''Philodo'',
        JStr [], JStr ''e-bike,dual motor,fat tire,60V'', JStr ''TRUE'', JStr ''Title'',
        JStr ''Default Title'', JStr ''F-60'', JStr ''30000'', JStr ''shopify'', JStr ''deny'',
        JStr ''manual'', JStr ''1999'', JStr ''2499'', JStr ''TRUE'', JStr ''TRUE'', JStr ''lb'',
        JStr ''a.jpg'', JStr ''1'', JStr ''Falcon'']"
    by (simp add: example_product_def DEFAULT_TAGS_def)
  from t have l: "length (product_to_rows example_product) = 3"
    by (simp add: example_product_def)
  from ne l r1 r2 show ?thesis
    by blast
qed

section \<open>The image extractor\<close>

lemma dedupe_acc: "dedupe us seen acc = acc @ dedupe us seen []"
proof (induction us arbitrary: seen acc)
  case Nil
  show ?case by simp
next
  case (Cons u us)
  from Cons [of "insert u seen" "acc @ [u]"] Cons [of "insert u seen" "[u]"] Cons [of seen acc]
  show ?case by simp
qed

lemma dedupe_Cons:
  "dedupe (u # us) seen [] =
     (if u \<notin> seen then u # dedupe us (insert u seen) [] else dedupe us seen [])"
  using dedupe_acc [of us "insert u seen" "[u]"] by simp

lemma set_dedupe: "set (dedupe us seen []) = set us - seen"
  by (induction us arbitrary: seen) (auto simp: dedupe_Cons simp del: dedupe.simps(2))

lemma distinct_dedupe: "distinct (dedupe us seen [])"
  by (induction us arbitrary: seen) (auto simp: dedupe_Cons set_dedupe simp del: dedupe.simps(2))

lemma first_index_Cons:
  "first_index (u # us) v = (if u = v then 0 else Suc (first_index us v))"
  by (auto simp: first_index_def)

lemma sorted_dedupe:
  "sorted_wrt (\<lambda>x y. first_index us x < first_index us y) (dedupe us seen [])"
proof (induction us arbitrary: seen)
  case Nil
  show ?case by simp
next
  case (Cons u us)
  have step: "sorted_wrt (\<lambda>x y. first_index (u # us) x < first_index (u # us) y)
                (dedupe us s [])" if "u \<in> s" for s
  proof (rule sorted_wrt_mono_rel [OF _ Cons [of s]])
    fix x y
    assume "x \<in> set (dedupe us s [])" "y \<in> set (dedupe us s [])"
      and "first_index us x < first_index us y"
    with that show "first_index (u # us) x < first_index (u # us) y"
      by (auto simp: set_dedupe first_index_Cons)
  qed
  show ?case
  proof (cases "u \<in> seen")
    case True
    with step [of seen] show ?thesis
      by (simp add: dedupe_Cons del: dedupe.simps)
  next
    case False
    have "\<forall>y \<in> set (dedupe us (insert u seen) []). first_index (u # us) u < first_index (u # us) y"
      by (auto simp: set_dedupe first_index_Cons)
    with step [of "insert u seen"] False show ?thesis
      by (simp add: dedupe_Cons del: dedupe.simps)
  qed
qed

text \<open>
  Claim C4. Whatever the \<open>img\<close> elements, duplicates included, the output of the image
  extractor holds each URL at most once, has at most 12 entries, holds only accepted URLs
  (those the first loop collects), and lists them in the order of their first
  occurrences among the accepted URLs; when there are at most 12 different accepted
  URLs, it holds all of them.
\<close>

theorem extract_images_deduplicated:
  "distinct (extract_images imgs)
   \<and> length (extract_images imgs) \<le> 12
   \<and> set (extract_images imgs) \<subseteq> set (collect_urls imgs)
   \<and> sorted_wrt (\<lambda>u v. first_index (collect_urls imgs) u < first_index (collect_urls imgs) v)
        (extract_images imgs)
   \<and> (card (set (collect_urls imgs)) \<le> 12 \<longrightarrow>
        set (extract_images imgs) = set (collect_urls imgs))"
proof -
  let ?d = "dedupe (collect_urls imgs) {} []"
  have 1: "distinct (take 12 ?d)"
    by (simp add: distinct_dedupe)
  have 2: "set (take 12 ?d) \<subseteq> set (collect_urls imgs)"
    using set_take_subset [of 12 ?d] by (simp add: set_dedupe)
  have 3: "sorted_wrt (\<lambda>u v. first_index (collect_urls imgs) u < first_index (collect_urls imgs) v)
             (take 12 ?d)"
    by (rule sorted_wrt_take) (rule sorted_dedupe)
  have 4: "set (take 12 ?d) = set (collect_urls imgs)" if "card (set (collect_urls imgs)) \<le> 12"
  proof -
    have "length ?d = card (set ?d)"
      by (simp add: distinct_card distinct_dedupe)
    with that have "length ?d \<le> 12"
      by (simp add: set_dedupe)
    then show ?thesis
      by (simp add: set_dedupe)
  qed
  from 1 2 3 4 show ?thesis
    by (simp add: extract_images_def)
qed

theorem extract_images_deduplicated_witness:
  "extract_images [plain_img ''a.jpg'', plain_img ''b.jpg'', plain_img ''a.jpg'', plain_img ''c.jpg'']
     = [''a.jpg'', ''b.jpg'', ''c.jpg'']
   \<and> card (set (collect_urls [plain_img ''a.jpg'', plain_img ''b.jpg'', plain_img ''a.jpg'', plain_img ''c.jpg''])) \<le> 12
   \<and> set (extract_images [plain_img ''a.jpg'', plain_img ''b.jpg'', plain_img ''a.jpg'', plain_img ''c.jpg''])
      = set (collect_urls [plain_img ''a.jpg'', plain_img ''b.jpg'', plain_img ''a.jpg'', plain_img ''c.jpg''])"
proof -
  let ?imgs = "[plain_img ''a.jpg'', plain_img ''b.jpg'', plain_img ''a.jpg'', plain_img ''c.jpg'']"
  have c: "collect_urls ?imgs = [''a.jpg'', ''b.jpg'', ''a.jpg'', ''c.jpg'']"
    by code_simp
  have e: "extract_images ?imgs = [''a.jpg'', ''b.jpg'', ''c.jpg'']"
    by code_simp
  have "card (set (collect_urls ?imgs)) \<le> 12"
    unfolding c by (simp add: card_insert_if)
  with extract_images_deduplicated [of ?imgs] e show ?thesis
    by simp
qed

text \<open>
  Claim C6. With the two candidates \<open>a.jpg 1x\<close> and \<open>b.jpg 2x\<close> separated by a comma and
  a space, the usual way of writing \<open>srcset\<close>, the second piece starts with a space, its
  first token in \<open>split(" ")\<close> is the empty string, and the extractor replaces the URL by
  the empty string, not by \<open>b.jpg\<close>, the URL token of the last candidate.
\<close>

theorem srcset_space_after_comma:
  "srcset_candidates ''a.jpg 1x, b.jpg 2x'' = [''a.jpg'', []]
   \<and> extract_images [srcset_spaced_img] = [[]]"
  by code_simp

text \<open>
  Claim C5, as stated, has the URL of a \<open>srcset\<close> replacement excluded as well when it
  contains one of the words. The element below has the plain \<open>src\<close> \<open>a.jpg\<close> and the
  \<open>srcset\<close> candidate \<open>LOGO.png\<close>: the output is \<open>LOGO.png\<close>, which contains \<open>logo\<close> once
  in lower case.
\<close>

theorem srcset_logo_not_skipped:
  "extract_images [srcset_logo_img] = [''LOGO.png'']
   \<and> sublist ''logo'' (lower ''LOGO.png'')"
  by code_simp

lemma img_url_irrelevant: "src_irrelevant img \<Longrightarrow> img_url img = None"
  by (auto simp: src_irrelevant_def img_url_def split: option.splits)

lemma collect_urls_filter:
  "collect_urls (filter (\<lambda>img. \<not> src_irrelevant img) imgs) = collect_urls imgs"
  by (induction imgs) (auto simp: img_url_irrelevant split: option.splits)

lemma img_url_no_srcset:
  "srcset img = None \<Longrightarrow> img_url img = Some u \<Longrightarrow> \<not> irrelevant u"
  by (auto simp: img_url_def split: option.splits if_splits)

lemma collect_urls_no_srcset:
  "\<forall>img \<in> set imgs. srcset img = None \<Longrightarrow> u \<in> set (collect_urls imgs) \<Longrightarrow> \<not> irrelevant u"
  by (induction imgs) (auto split: option.splits dest: img_url_no_srcset)

text \<open>
  Claim C5, amended. An \<open>img\<close> element whose URL from \<open>src\<close>, \<open>data-src\<close> or
  \<open>data-original\<close> contains \<open>logo\<close>, \<open>icon\<close>, \<open>spinner\<close>, \<open>placeholder\<close> or \<open>svg\<close> in any
  letter case is skipped wherever it stands: the output is the same as without these
  elements. So when no element has a \<open>srcset\<close>, no URL of the output contains one of the
  words. The URL that replaces it from a \<open>srcset\<close> is not looked at.
\<close>

theorem extract_images_skips_irrelevant_src:
  "extract_images (filter (\<lambda>img. \<not> src_irrelevant img) imgs) = extract_images imgs
   \<and> ((\<forall>img \<in> set imgs. srcset img = None) \<longrightarrow>
        (\<forall>u \<in> set (extract_images imgs). \<not> irrelevant u))"
proof -
  have "u \<in> set (collect_urls imgs)" if "u \<in> set (extract_images imgs)" for u
    using that set_take_subset [of 12 "dedupe (collect_urls imgs) {} []"]
    by (auto simp: extract_images_def set_dedupe)
  then show ?thesis
    using collect_urls_no_srcset [of imgs]
    by (auto simp: extract_images_def collect_urls_filter)
qed

theorem extract_images_skips_irrelevant_src_witness:
  "srcset (plain_img ''a.jpg'') = None
   \<and> srcset (plain_img ''img/Logo.png'') = None
   \<and> srcset (plain_img ''b.jpg'') = None
   \<and> src_irrelevant (plain_img ''img/Logo.png'')
   \<and> extract_images [plain_img ''a.jpg'', plain_img ''img/Logo.png'', plain_img ''b.jpg'']
       = extract_images [plain_img ''a.jpg'', plain_img ''b.jpg'']
   \<and> extract_images [plain_img ''a.jpg'', plain_img ''img/Logo.png'', plain_img ''b.jpg'']
       = [''a.jpg'', ''b.jpg'']
   \<and> \<not> irrelevant ''a.jpg'' \<and> \<not> irrelevant ''b.jpg''"
proof -
  let ?imgs = "[plain_img ''a.jpg'', plain_img ''img/Logo.png'', plain_img ''b.jpg'']"
  have n: "\<forall>img \<in> set ?imgs. srcset img = None"
    by (simp add: plain_img_def)
  have l: "src_irrelevant (plain_img ''img/Logo.png'')"
    by code_simp
  have a: "\<not> src_irrelevant (plain_img ''a.jpg'')"
    by code_simp
  have b: "\<not> src_irrelevant (plain_img ''b.jpg'')"
    by code_simp
  have e: "extract_images [plain_img ''a.jpg'', plain_img ''b.jpg''] = [''a.jpg'', ''b.jpg'']"
    by code_simp
  note t = extract_images_skips_irrelevant_src [of ?imgs]
  from t l a b have 1: "extract_images ?imgs = extract_images [plain_img ''a.jpg'', plain_img ''b.jpg'']"
    by simp
  from t n have "\<forall>u \<in> set (extract_images ?imgs). \<not> irrelevant u"
    by blast
  with 1 e have 2: "\<not> irrelevant ''a.jpg'' \<and> \<not> irrelevant ''b.jpg''"
    by simp
  from n l 1 e 2 show ?thesis
    by simp
qed

section \<open>The structured metadata\<close>

lemma map_of_rev_distinct: "distinct (map fst d) \<Longrightarrow> map_of (rev d) = map_of d"
proof (induction d)
  case Nil
  show ?case by simp
next
  case (Cons p d)
  then have "map_of d (fst p) = None"
    by (simp add: map_of_eq_None_iff)
  with Cons show ?case
    by (cases p) (auto simp: map_add_def fun_eq_iff split: option.splits)
qed

lemma map_add_upd_left: "m(k \<mapsto> v) ++ n = m ++ ([k \<mapsto> v] ++ n)"
  by (rule ext) (simp add: map_add_def split: option.splits)

lemma map_of_dict_update: "map_of (dict_update data d) = map_of data ++ map_of (rev d)"
  unfolding dict_update_def
proof (induction d arbitrary: data)
  case Nil
  show ?case by simp
next
  case (Cons p d)
  obtain k v where p: "p = (k, v)"
    by (cases p)
  have "map_of (fold (\<lambda>(k, v). AList.update k v) (p # d) data) =
          map_of (AList.update k v data) ++ map_of (rev d)"
    by (simp add: p Cons)
  also have "\<dots> = (map_of data)(k \<mapsto> v) ++ map_of (rev d)"
    by (simp only: update_conv')
  also have "\<dots> = map_of data ++ ([k \<mapsto> v] ++ map_of (rev d))"
    by (rule map_add_upd_left)
  also have "\<dots> = map_of data ++ map_of (rev (p # d))"
    by (simp add: p)
  finally show ?case .
qed

lemma distinct_dict_update:
  "distinct (map fst data) \<Longrightarrow> distinct (map fst (dict_update data d))"
  unfolding dict_update_def
  by (induction d arbitrary: data) (auto simp: distinct_update)

lemma merge_blocks_eq:
  "foldl merge_block data bs =
     foldl dict_update data (List.map_filter (\<lambda>b. case b of JDict d \<Rightarrow> Some d | _ \<Rightarrow> None) bs)"
  by (induction bs arbitrary: data)
     (auto simp: merge_block_def List.map_filter_simps split: json.splits)

lemma ld_step_eq:
  "ld_step loads data tag = foldl dict_update data (ld_blocks loads [tag])"
  by (cases "loads (tag_content tag)")
     (auto simp: ld_step_def ld_blocks_def dict_blocks_def merge_blocks_eq merge_block_def Let_def
           List.map_filter_simps split: json.splits)

lemma ld_blocks_Cons: "ld_blocks loads (tag # scripts) = ld_blocks loads [tag] @ ld_blocks loads scripts"
  by (simp add: ld_blocks_def)

lemma foldl_ld_step:
  "foldl (ld_step loads) data scripts = foldl dict_update data (ld_blocks loads scripts)"
proof (induction scripts arbitrary: data)
  case Nil
  show ?case by (simp add: ld_blocks_def)
next
  case (Cons tag scripts)
  show ?case
    by (subst ld_blocks_Cons) (simp add: Cons ld_step_eq)
qed

lemma last_wins_snoc:
  "last_wins (ds @ [d]) k = (case map_of d k of None \<Rightarrow> last_wins ds k | Some v \<Rightarrow> Some v)"
  by (auto simp: last_wins_def split: option.splits)

lemma map_of_foldl_dict_update:
  "\<forall>d \<in> set ds. distinct (map fst d) \<Longrightarrow>
     map_of (foldl dict_update data ds) k =
       (case last_wins ds k of None \<Rightarrow> map_of data k | Some v \<Rightarrow> Some v)"
proof (induction ds rule: rev_induct)
  case Nil
  show ?case by (simp add: last_wins_def)
next
  case (snoc d ds)
  then have "distinct (map fst d)" by simp
  then have "map_of (rev d) = map_of d"
    by (rule map_of_rev_distinct)
  with snoc show ?case
    by (simp add: map_of_dict_update last_wins_snoc map_add_def split: option.splits)
qed

lemma distinct_foldl_dict_update:
  "distinct (map fst data) \<Longrightarrow> distinct (map fst (foldl dict_update data ds))"
  by (induction ds arbitrary: data) (simp_all add: distinct_dict_update)

text \<open>
  Claim C7. Take the dict-shaped blocks of all \<open>application/ld+json\<close> scripts in
  document order, lists flattened one level, scripts that are empty or do not parse and
  blocks that are not dicts left out. With the keys of every block distinct, as
  \<open>json.loads\<close> yields them, the extractor returns one mapping with distinct keys in
  which every key has the value of the last block that has the key; a key of no block is
  absent.
\<close>

theorem extract_json_ld_last_wins:
  "\<forall>d \<in> set (ld_blocks loads scripts). distinct (map fst d) \<Longrightarrow>
     map_of (extract_json_ld loads scripts) k = last_wins (ld_blocks loads scripts) k
     \<and> distinct (map fst (extract_json_ld loads scripts))"
  using map_of_foldl_dict_update [of "ld_blocks loads scripts" "[]" k]
    distinct_foldl_dict_update [of "[]" "ld_blocks loads scripts"]
  by (simp add: extract_json_ld_def foldl_ld_step split: option.splits)

theorem extract_json_ld_last_wins_witness:
  "ld_blocks example_loads example_scripts =
     [[(''name'', JStr ''old''), (''sku'', JStr ''F-60'')], [(''name'', JStr ''new'')]]
   \<and> map_of (extract_json_ld example_loads example_scripts) ''name'' = Some (JStr ''new'')
   \<and> map_of (extract_json_ld example_loads example_scripts) ''sku'' = Some (JStr ''F-60'')
   \<and> map_of (extract_json_ld example_loads example_scripts) ''offers'' = None"
proof -
  have b: "ld_blocks example_loads example_scripts =
     [[(''name'', JStr ''old''), (''sku'', JStr ''F-60'')], [(''name'', JStr ''new'')]]"
    by (simp add: ld_blocks_def example_loads_def example_scripts_def tag_content_def
          dict_blocks_def List.map_filter_simps)
  then have d: "\<forall>d \<in> set (ld_blocks example_loads example_scripts). distinct (map fst d)"
    by simp
  from extract_json_ld_last_wins [OF d, of "''name''"]
    extract_json_ld_last_wins [OF d, of "''sku''"]
    extract_json_ld_last_wins [OF d, of "''offers''"] b
  show ?thesis
    by (simp add: last_wins_def)
qed

section \<open>The fetcher\<close>

lemma attempts_list: "[1 ..< MAX_RETRIES + 1] = [1, 2, 3]"
  by (simp add: MAX_RETRIES_def upt_conv_Cons)

lemma tries_list: "[0 ..< MAX_RETRIES] = [0, 1, 2]"
  by (simp add: MAX_RETRIES_def upt_conv_Cons)

lemma get_unfold: "get nw url w = get_attempts nw url [1, 2, 3] w"
  by (simp only: get_def attempts_list)

lemma first_success_unfold:
  "first_success nw url n0 = find (\<lambda>k. succeeds (nw url (n0 + k))) [0, 1, 2]"
  by (simp only: first_success_def tries_list)

lemma upt_14: "[1 ..< 4] = [1, 2, 3::nat]"
  by (simp add: upt_conv_Cons)


lemma get_failing_net:
  "get failing_net ''u'' world0 =
     (None,
      \<lparr>requests_made = 3,
       trace = [Request ''u'', Print (WarnStatus ''u'' 503 1), Sleep (3 / 2),
                Request ''u'', Print (WarnStatus ''u'' 503 2), Sleep 3,
                Request ''u'', Print (WarnStatus ''u'' 503 3), Sleep (9 / 2),
                Print (ErrorFailedGet ''u'')],
       files = Map.empty\<rparr>)"
  by (simp add: get_unfold failing_net_def world0_def emit_def request_def RETRY_SLEEP_def)

text \<open>
  Claim C8, as stated, has no sleep after the final failed attempt. With three responses
  of status 503 the fetcher makes three requests, and after the warning of the third one
  it sleeps \<open>1.5 \<times> 3 = 4.5\<close> seconds before it prints the error and returns nothing.
\<close>

theorem get_sleeps_after_last_failure:
  "fst (get failing_net ''u'' world0) = None
   \<and> trace (snd (get failing_net ''u'' world0)) =
       [Request ''u'', Print (WarnStatus ''u'' 503 1), Sleep (3 / 2),
        Request ''u'', Print (WarnStatus ''u'' 503 2), Sleep 3,
        Request ''u'', Print (WarnStatus ''u'' 503 3), Sleep (9 / 2),
        Print (ErrorFailedGet ''u'')]"
  by (simp add: get_failing_net)

lemma get_cases:
  "get nw url w = (r, w') \<Longrightarrow>
     (case first_success nw url (requests_made w) of
        Some k \<Rightarrow>
          r = fetched (nw url (requests_made w + k))
          \<and> succeeds (nw url (requests_made w + k))
          \<and> requests_made w' = requests_made w + k + 1
          \<and> sleeps (new_events w w') = map (\<lambda>a. RETRY_SLEEP * of_nat a) [1 ..< k + 1]
      | None \<Rightarrow>
          r = None
          \<and> requests_made w' = requests_made w + 3
          \<and> sleeps (new_events w w') = [RETRY_SLEEP * 1, RETRY_SLEEP * 2, RETRY_SLEEP * 3])"
  apply (simp add: get_unfold first_success_unfold upt_14)
  apply (cases "nw url (requests_made w)"; cases "nw url (Suc (requests_made w))";
         cases "nw url (Suc (Suc (requests_made w)))")
  apply (auto simp: succeeds_def fetched_def emit_def request_def new_events_def upt_conv_Cons
              split: if_splits)
  done

lemma first_success_less: "first_success nw url n0 = Some k \<Longrightarrow> k < MAX_RETRIES"
  unfolding first_success_def
  by (auto simp: find_Some_iff)

lemma parse_product_no_response:
  "get nw url w = (None, w') \<Longrightarrow> parse_product lib nw url w = (Inr None, w')"
  by (simp add: parse_product_def)

text \<open>
  Claim C8, amended. For every URL the fetcher makes at most 3 requests. If the first
  request with status 200 is the one with index \<open>k < 3\<close>, it returns that response after
  \<open>k + 1\<close> requests, having slept \<open>1.5 \<times> a\<close> seconds after each failed attempt
  \<open>a = 1, \<dots>, k\<close>. If none of the three has status 200, it has slept after every failed
  attempt, the final one included (1.5, 3.0 and 4.5 seconds), and returns nothing; then
  \<open>parse_product\<close> returns no record without raising, and the loop of \<open>main\<close> prints the
  failure and goes on with the next URL.
\<close>

theorem get_linear_backoff:
  "get nw url w = (r, w') \<Longrightarrow>
     requests_made w' - requests_made w \<le> MAX_RETRIES
     \<and> (case first_success nw url (requests_made w) of
          Some k \<Rightarrow>
            r = fetched (nw url (requests_made w + k))
            \<and> succeeds (nw url (requests_made w + k))
            \<and> requests_made w' = requests_made w + k + 1
            \<and> sleeps (new_events w w') = map (\<lambda>a. RETRY_SLEEP * of_nat a) [1 ..< k + 1]
        | None \<Rightarrow>
            r = None
            \<and> requests_made w' = requests_made w + 3
            \<and> sleeps (new_events w w') = [RETRY_SLEEP * 1, RETRY_SLEEP * 2, RETRY_SLEEP * 3])
     \<and> (r = None \<longrightarrow>
          parse_product lib nw url w = (Inr None, w')
          \<and> (\<forall>w0. w = emit (Print (InfoScraping url)) w0 \<longrightarrow>
                scrape_all lib nw (url # urls) products w0 =
                  scrape_all lib nw urls products (emit (Print (FailParse url)) w')))"
proof -
  assume g: "get nw url w = (r, w')"
  note c = get_cases [OF g]
  have 1: "requests_made w' - requests_made w \<le> MAX_RETRIES"
  proof (cases "first_success nw url (requests_made w)")
    case None
    with c show ?thesis by (simp add: MAX_RETRIES_def)
  next
    case (Some k)
    with c first_success_less [OF Some] show ?thesis by simp
  qed
  have 2: "parse_product lib nw url w = (Inr None, w')" if "r = None"
    using that g by (simp add: parse_product_no_response)
  have 3: "scrape_all lib nw (url # urls) products w0 =
             scrape_all lib nw urls products (emit (Print (FailParse url)) w')"
    if "r = None" "w = emit (Print (InfoScraping url)) w0" for w0
    using 2 [OF that(1)] that(2) by simp
  from c 1 2 3 show ?thesis
    by (simp split: option.splits)
qed

lemma get_flaky_net:
  "get flaky_net ''u'' world0 =
     (Some \<lparr>status_code = 200, page = empty_soup\<rparr>,
      \<lparr>requests_made = 2,
       trace = [Request ''u'', Print (WarnRequestError ''u'' 1), Sleep (3 / 2), Request ''u''],
       files = Map.empty\<rparr>)"
  by (simp add: get_unfold flaky_net_def world0_def emit_def request_def RETRY_SLEEP_def)

theorem get_linear_backoff_witness:
  "fst (get failing_net ''u'' world0) = None
   \<and> first_success failing_net ''u'' 0 = None
   \<and> sleeps (new_events world0 (snd (get failing_net ''u'' world0))) = [3 / 2, 3, 9 / 2]
   \<and> parse_product example_lib failing_net ''u'' world0 = (Inr None, snd (get failing_net ''u'' world0))
   \<and> first_success flaky_net ''u'' 0 = Some 1
   \<and> status_code (the (fst (get flaky_net ''u'' world0))) = 200
   \<and> sleeps (new_events world0 (snd (get flaky_net ''u'' world0))) = [3 / 2]"
proof -
  have f1: "first_success failing_net ''u'' 0 = None"
    by (simp add: first_success_unfold failing_net_def succeeds_def)
  have f2: "first_success flaky_net ''u'' 0 = Some 1"
    by (simp add: first_success_unfold flaky_net_def succeeds_def)
  have a: "get failing_net ''u'' world0 = (fst (get failing_net ''u'' world0), snd (get failing_net ''u'' world0))"
    by simp
  have b: "get flaky_net ''u'' world0 = (fst (get flaky_net ''u'' world0), snd (get flaky_net ''u'' world0))"
    by simp
  have r0: "requests_made world0 = 0"
    by (simp add: world0_def)
  from get_linear_backoff [OF a, of example_lib "[]" "[]"] f1 r0
  have A: "fst (get failing_net ''u'' world0) = None
     \<and> sleeps (new_events world0 (snd (get failing_net ''u'' world0))) = [3 / 2, 3, 9 / 2]
     \<and> parse_product example_lib failing_net ''u'' world0 = (Inr None, snd (get failing_net ''u'' world0))"
    by (simp add: RETRY_SLEEP_def)
  from get_linear_backoff [OF b, of example_lib "[]" "[]"] f2 r0
  have B: "status_code (the (fst (get flaky_net ''u'' world0))) = 200
     \<and> sleeps (new_events world0 (snd (get flaky_net ''u'' world0))) = [3 / 2]"
    by (simp add: RETRY_SLEEP_def fetched_def flaky_net_def)
  from A B f1 f2 show ?thesis
    by simp
qed

section \<open>The run\<close>

lemma build_falcon: "build_product falcon_lib falcon_soup = Inr falcon_product"
  by code_simp

lemma build_offers_list: "build_product example_lib offers_list_soup = Inl AttributeError"
  by code_simp

lemma files_get_attempts: "files (snd (get_attempts nw url as w)) = files w"
  by (induction as arbitrary: w)
     (auto simp: emit_def request_def split: http_result.splits)

lemma files_get: "files (snd (get nw url w)) = files w"
  by (simp add: get_def files_get_attempts)

lemma files_parse_product: "files (snd (parse_product lib nw url w)) = files w"
  using files_get [of nw url w]
  by (auto simp: parse_product_def split: prod.splits option.splits sum.splits)

lemma files_scrape_all: "files (snd (scrape_all lib nw urls products w)) = files w"
proof (induction urls arbitrary: products w)
  case Nil
  show ?case by simp
next
  case (Cons url urls)
  have "files (snd (parse_product lib nw url (emit (Print (InfoScraping url)) w))) = files w"
    by (simp add: files_parse_product emit_def)
  then show ?case
    by (auto simp: Cons emit_def split: prod.splits option.splits sum.splits)
qed

text \<open>
  Claim C9, as stated, has the error logged whenever the list of parsed products is
  empty after the URLs are processed. With no URL at all, the list the script ships
  with, the loop leaves no product, and \<open>main\<close> prints the note that no URLs were given
  and the usage line, and returns: no error is logged (and no file written).
\<close>

theorem main_without_urls_logs_no_error:
  "main example_lib failing_net [] world0 =
     (None, \<lparr>requests_made = 0, trace = [Print InfoNoUrls, Print Usage], files = Map.empty\<rparr>)
   \<and> scrape_all example_lib failing_net [] [] world0 = (Inr [], world0)"
  by (simp add: main_def emit_def world0_def)

text \<open>
  Claim C9, amended. Let \<open>products\<close> be the list the loop over the URLs leaves. If it is
  empty, \<open>main\<close> returns with the files as they were; the last thing it does is print the
  error that no products were parsed when there was at least one URL, and it prints only
  the note and the usage line when there was none. If the list is not empty, \<open>main\<close>
  writes the output file, the header row followed by the rows of every product, and
  prints that it is done. When an exception leaves the loop, the files are as they were.
  So the file is written only when at least one product was parsed.
\<close>

theorem main_writes_only_with_products:
  "main lib nw urls w = (res, w') \<Longrightarrow>
     (case scrape_all lib nw urls [] w of
        (Inl e, w1) \<Rightarrow> res = Some e \<and> files w' = files w
      | (Inr products, w1) \<Rightarrow>
          res = None
          \<and> (if products = []
             then files w' = files w
                  \<and> trace w' = (if urls = [] then trace w @ [Print InfoNoUrls, Print Usage]
                                else trace w1 @ [Print ErrorNoProducts])
             else files w' = (files w)(OUTPUT_CSV \<mapsto>
                                 map JStr CSV_HEADERS # concat (map product_to_rows products))
                  \<and> trace w' = trace w1 @ [Print (DoneWrote (length products))]))"
proof (cases "urls = []")
  case True
  assume "main lib nw urls w = (res, w')"
  with True show ?thesis
    by (auto simp: main_def emit_def)
next
  case False
  assume m: "main lib nw urls w = (res, w')"
  obtain r w1 where s: "scrape_all lib nw urls [] w = (r, w1)"
    by (cases "scrape_all lib nw urls [] w")
  from files_scrape_all [of lib nw urls "[]" w] s have f: "files w1 = files w"
    by simp
  from m False s f show ?thesis
    by (auto simp: main_def emit_def write_csv_def split: sum.splits if_splits)
qed

lemma scrape_failing_net:
  "scrape_all lib failing_net [''u''] [] world0 =
     (Inr [],
      \<lparr>requests_made = 3,
       trace = [Print (InfoScraping ''u''),
                Request ''u'', Print (WarnStatus ''u'' 503 1), Sleep (3 / 2),
                Request ''u'', Print (WarnStatus ''u'' 503 2), Sleep 3,
                Request ''u'', Print (WarnStatus ''u'' 503 3), Sleep (9 / 2),
                Print (ErrorFailedGet ''u''), Print (FailParse ''u'')],
       files = Map.empty\<rparr>)"
  by (simp add: parse_product_def get_unfold failing_net_def world0_def emit_def request_def
        RETRY_SLEEP_def)

lemma scrape_falcon_net:
  "scrape_all falcon_lib falcon_net [''u''] [] world0 =
     (Inr [falcon_product],
      \<lparr>requests_made = 1,
       trace = [Print (InfoScraping ''u''), Request ''u'', Print (OkParsed ''Falcon 60V'' 1)],
       files = Map.empty\<rparr>)"
  by (simp add: parse_product_def get_unfold falcon_net_def world0_def emit_def request_def
        build_falcon)
     (simp add: falcon_product_def)

theorem main_writes_only_with_products_witness:
  "fst (main example_lib failing_net [''u''] world0) = None
   \<and> files (snd (main example_lib failing_net [''u''] world0)) OUTPUT_CSV = None
   \<and> last (trace (snd (main example_lib failing_net [''u''] world0))) = Print ErrorNoProducts
   \<and> fst (main falcon_lib falcon_net [''u''] world0) = None
   \<and> files (snd (main falcon_lib falcon_net [''u''] world0)) OUTPUT_CSV =
       Some [map JStr CSV_HEADERS, base_row falcon_product]
   \<and> last (trace (snd (main falcon_lib falcon_net [''u''] world0))) = Print (DoneWrote 1)"
proof -
  have a: "main example_lib failing_net [''u''] world0 =
      (fst (main example_lib failing_net [''u''] world0), snd (main example_lib failing_net [''u''] world0))"
    by simp
  have b: "main falcon_lib falcon_net [''u''] world0 =
      (fst (main falcon_lib falcon_net [''u''] world0), snd (main falcon_lib falcon_net [''u''] world0))"
    by simp
  have r: "product_to_rows falcon_product = [base_row falcon_product]"
    by (simp add: product_to_rows_def falcon_product_def)
  from main_writes_only_with_products [OF a, unfolded scrape_failing_net]
  have A: "fst (main example_lib failing_net [''u''] world0) = None
   \<and> files (snd (main example_lib failing_net [''u''] world0)) OUTPUT_CSV = None
   \<and> last (trace (snd (main example_lib failing_net [''u''] world0))) = Print ErrorNoProducts"
    by (simp add: world0_def)
  from main_writes_only_with_products [OF b, unfolded scrape_falcon_net]
  have B: "fst (main falcon_lib falcon_net [''u''] world0) = None
   \<and> files (snd (main falcon_lib falcon_net [''u''] world0)) OUTPUT_CSV =
       Some [map JStr CSV_HEADERS, base_row falcon_product]
   \<and> last (trace (snd (main falcon_lib falcon_net [''u''] world0))) = Print (DoneWrote 1)"
    by (simp add: world0_def r)
  from A B show ?thesis
    by simp
qed

text \<open>
  Claim C1. \<open>parse_product\<close> should never raise, whatever the shape of the JSON-LD. The
  page below is fetched with status 200 and has one \<open>application/ld+json\<close> script, whose
  \<open>offers\<close> is a list that starts with a string. \<open>offers[0].get("price")\<close> then raises
  \<open>AttributeError\<close>: it leaves \<open>parse_product\<close>, and \<open>main\<close>, which calls it outside any
  \<open>try\<close>, ends with it and writes no file.
\<close>

theorem parse_product_raises_on_offers_list:
  "build_product example_lib offers_list_soup = Inl AttributeError
   \<and> fst (parse_product example_lib offers_list_net ''u'' world0) = Inl AttributeError
   \<and> fst (main example_lib offers_list_net [''u''] world0) = Some AttributeError
   \<and> files (snd (main example_lib offers_list_net [''u''] world0)) OUTPUT_CSV = None"
  by (simp add: main_def parse_product_def get_unfold offers_list_net_def world0_def emit_def
        request_def build_offers_list)

section \<open>The handle\<close>

lemma slug_char_hyphen: "slug_char CHR ''-''"
  by (simp add: slug_char_def)

lemma sub_non_slug_chars: "c \<in> set (sub_non_slug s) \<Longrightarrow> slug_char c"
  by (induction s rule: sub_non_slug.induct) (auto simp: slug_char_hyphen split: if_splits)

lemma set_strip_with: "x \<in> set (strip_with p s) \<Longrightarrow> x \<in> set s"
proof -
  assume "x \<in> set (strip_with p s)"
  then have "x \<in> set (dropWhile p (rev (dropWhile p s)))"
    by (simp add: strip_with_def)
  then have "x \<in> set (rev (dropWhile p s))"
    by (rule set_dropWhileD)
  then have "x \<in> set (dropWhile p s)"
    by simp
  then show ?thesis
    by (rule set_dropWhileD)
qed

lemma last_dropWhile: "dropWhile p xs \<noteq> [] \<Longrightarrow> last (dropWhile p xs) = last xs"
  by (induction xs) auto

lemma strip_with_ends:
  assumes "strip_with p s \<noteq> []"
  shows "\<not> p (hd (strip_with p s))" and "\<not> p (last (strip_with p s))"
proof -
  define a where "a = dropWhile p s"
  define b where "b = dropWhile p (rev a)"
  have s: "strip_with p s = rev b"
    by (simp add: strip_with_def a_def b_def)
  with assms have b: "b \<noteq> []"
    by simp
  have a: "a \<noteq> []"
  proof
    assume "a = []"
    then have "b = []"
      by (simp add: b_def)
    with b show False
      by simp
  qed
  have "last b = last (rev a)"
    using b unfolding b_def by (rule last_dropWhile)
  with a b have "hd (rev b) = hd a"
    by (simp add: hd_rev last_rev)
  moreover have "\<not> p (hd a)"
    using a unfolding a_def by (rule hd_dropWhile)
  ultimately show "\<not> p (hd (strip_with p s))"
    by (simp add: s)
  have "\<not> p (hd b)"
    using b unfolding b_def by (rule hd_dropWhile)
  with b show "\<not> p (last (strip_with p s))"
    by (simp add: s last_rev)
qed

text \<open>
  For every title the handle is made of lower-case letters, digits and hyphens, contains
  \<open>philodo\<close>, is not empty and does not start with a hyphen; it ends with a hyphen exactly
  when nothing of the title is left after the substitution and the strip.
\<close>

lemma make_handle_shape:
  "(\<forall>c \<in> set (make_handle t). slug_char c)
   \<and> sublist ''philodo'' (make_handle t)
   \<and> make_handle t \<noteq> []
   \<and> hd (make_handle t) \<noteq> CHR ''-''
   \<and> (last (make_handle t) = CHR ''-''
        \<longleftrightarrow> strip_chars CHR ''-'' (sub_non_slug (lower t)) = [])"
proof -
  let ?h = "strip_chars CHR ''-'' (sub_non_slug (lower t))"
  have chars: "\<forall>c \<in> set ?h. slug_char c"
    by (auto simp: strip_chars_def dest!: set_strip_with sub_non_slug_chars)
  have ends: "hd ?h \<noteq> CHR ''-'' \<and> last ?h \<noteq> CHR ''-''" if "?h \<noteq> []"
    using that strip_with_ends [of "\<lambda>x. x = CHR ''-''" "sub_non_slug (lower t)"]
    by (simp add: strip_chars_def)
  show ?thesis
  proof (cases "sublist ''philodo'' ?h")
    case True
    then have "?h \<noteq> []"
      by auto
    with True chars ends show ?thesis
      by (simp add: make_handle_def Let_def)
  next
    case False
    have "sublist ''philodo'' ([] @ ''philodo'' @ (''-'' @ ?h))"
      unfolding sublist_def by blast
    then have "sublist ''philodo'' (''philodo-'' @ ?h)"
      by simp
    with False chars ends show ?thesis
      by (auto simp: make_handle_def Let_def slug_char_def)
  qed
qed

text \<open>
  Claim C2. The handle should have no trailing hyphen, for any title. A page whose
  \<open>title\<close> element reads \<open>!!!\<close> has the title \<open>!!!\<close>; no character of it is in
  \<open>[a-z0-9-]\<close>, the substitution leaves one hyphen, the strip leaves nothing, and the
  prefix makes the handle \<open>philodo-\<close>, which ends with a hyphen.
\<close>

theorem make_handle_trailing_hyphen:
  "parse_title (empty_soup\<lparr>title_string := Some ''!!!''\<rparr>) = ''!!!''
   \<and> make_handle ''!!!'' = ''philodo-''
   \<and> last (make_handle ''!!!'') = CHR ''-''"
  by code_simp

end
